theory Spec2Isabelle
  imports Complex_Main "HOL-Library.Word" "HOL-Library.Log_Nat"
begin

section \<open>Python exceptions\<close>

text \<open>
  The exceptions the program can meet, as values. \<open>KeyboardInterrupt\<close> and
  \<open>SystemExit\<close> derive from \<open>BaseException\<close> only, so a handler
  \<open>except Exception\<close> lets them through; every other one derives from
  \<open>Exception\<close>.
\<close>

datatype exn =
    FileNotFoundError string
  | wave_Error string
  | EOFError string
  | ValueError string
  | ZeroDivisionError string
  | NameError string
  | RuntimeError string
  | KeyboardInterrupt
  | SystemExit

fun is_Exception :: "exn \<Rightarrow> bool" where
  "is_Exception KeyboardInterrupt = False"
| "is_Exception SystemExit = False"
| "is_Exception _ = True"

text \<open>\<open>str(e)\<close>, as the f-strings of the handlers format it.\<close>

fun exn_str :: "exn \<Rightarrow> string" where
  "exn_str (FileNotFoundError m) = m"
| "exn_str (wave_Error m) = m"
| "exn_str (EOFError m) = m"
| "exn_str (ValueError m) = m"
| "exn_str (ZeroDivisionError m) = m"
| "exn_str (NameError m) = m"
| "exn_str (RuntimeError m) = m"
| "exn_str KeyboardInterrupt = []"
| "exn_str SystemExit = []"

section \<open>The wave module: files on disk\<close>

text \<open>
  What \<open>wave.open(path, "rb")\<close> finds at a path: no file, a file whose header the
  module refuses (\<open>wave.Error\<close>), a file that ends inside its header
  (\<open>EOFError\<close>), or a PCM file. Where there is no file, \<open>open\<close> raises
  \<open>FileNotFoundError\<close>; the text of that error is made by the interpreter from the
  system's message and the \<open>repr\<close> of the path, and \<open>NoFile\<close> carries it as it
  is. Of a PCM file the program reads the frame rate and the bytes of the data chunk;
  the header's channel count and sample width are kept beside them. The frame rate is an
  unsigned field of the header: a \<open>nat\<close>.
\<close>

record wave_read =
  nchannels :: nat
  sampwidth :: nat
  framerate :: nat
  frames :: "8 word list"

datatype disk_file = NoFile string | BadHeader string | Truncated | PCM wave_read

type_synonym filesystem = "string \<Rightarrow> disk_file"

definition wave_open :: "filesystem \<Rightarrow> string \<Rightarrow> exn + wave_read" where
  "wave_open fs path =
     (case fs path of
        NoFile m \<Rightarrow> Inl (FileNotFoundError m)
      | BadHeader m \<Rightarrow> Inl (wave_Error m)
      | Truncated \<Rightarrow> Inl (EOFError [])
      | PCM w \<Rightarrow> Inr w)"

definition getframerate :: "wave_read \<Rightarrow> nat" where
  "getframerate w = framerate w"

text \<open>\<open>readframes(-1)\<close>: every byte of the data chunk that is left, here all of it.\<close>

definition readframes_all :: "wave_read \<Rightarrow> 8 word list" where
  "readframes_all w = frames w"

section \<open>The numpy operations the loader uses\<close>

text \<open>
  A \<open>float64\<close> is a finite value, an infinity or NaN. \<open>Fin q\<close> is the double
  nearest to the rational \<open>q\<close>: the result of one correctly rounded operation is
  written with its exact value, as for a quotient of two integers.
\<close>

datatype float64 = Fin rat | PosInf | NegInf | NaN

text \<open>
  \<open>fl q\<close> is that nearest double itself, as a rational: \<open>q\<close> rounded to 53
  significant bits, ties to the even significand, in steps of \<open>2 ^ -1074\<close> below the
  normal range. (Magnitudes of \<open>2 ^ 1024\<close> and more, which round to an infinity, do
  not arise: the program's quotients are bounded by the number of samples.)
\<close>

definition round_half_even :: "rat \<Rightarrow> int" where
  "round_half_even x =
     (let f = \<lfloor>x\<rfloor>; r = x - of_int f
      in if r < 1 / 2 then f else if 1 / 2 < r then f + 1
         else if even f then f else f + 1)"

text \<open>The exponent \<open>e\<close> with \<open>2 ^ e \<le> a < 2 ^ (e + 1)\<close>, for positive \<open>a\<close>.\<close>

definition ilog2 :: "rat \<Rightarrow> int" where
  "ilog2 a =
     (let (p, d) = quotient_of a; e0 = bitlen p - bitlen d
      in if 2 powi e0 \<le> a then e0 else e0 - 1)"

definition fl :: "rat \<Rightarrow> rat" where
  "fl q =
     (if q = 0 then 0
      else let k = max (ilog2 \<bar>q\<bar> - 52) (- 1074)
           in of_int (round_half_even (q / 2 powi k)) * 2 powi k)"

text \<open>
  Sum and difference of two doubles: exact when the second operand is zero, rounded
  otherwise.
\<close>

definition float_add :: "rat \<Rightarrow> rat \<Rightarrow> rat" where
  "float_add a b = (if b = 0 then a else fl (a + b))"

definition float_sub :: "rat \<Rightarrow> rat \<Rightarrow> rat" where
  "float_sub a b = (if b = 0 then a else fl (a - b))"

datatype ndarray = Int16Array "16 word list" | Float64Array "float64 list"

fun np_len :: "ndarray \<Rightarrow> nat" where
  "np_len (Int16Array xs) = length xs"
| "np_len (Float64Array xs) = length xs"

text \<open>
  \<open>np.frombuffer(bytes, dtype=np.int16)\<close>: consecutive byte pairs, low byte first,
  each read as one 16-bit value; a buffer of odd size is refused.
\<close>

fun le_int16s :: "8 word list \<Rightarrow> 16 word list" where
  "le_int16s (lo # hi # bs) = word_of_nat (unat lo + 256 * unat hi) # le_int16s bs"
| "le_int16s _ = []"

definition np_frombuffer_int16 :: "8 word list \<Rightarrow> exn + 16 word list" where
  "np_frombuffer_int16 buf =
     (if odd (length buf)
      then Inl (ValueError ''buffer size must be a multiple of element size'')
      else Inr (le_int16s buf))"

text \<open>
  \<open>np.abs\<close> on \<open>int16\<close> stays in \<open>int16\<close>: the negation wraps, so the
  absolute value of \<open>-32768\<close> is \<open>-32768\<close>.
\<close>

definition np_abs :: "16 word \<Rightarrow> 16 word" where
  "np_abs x = (if sint x < 0 then - x else x)"

text \<open>\<open>np.max\<close>: the largest element as a signed value; an empty array raises.\<close>

definition max_int16 :: "16 word \<Rightarrow> 16 word \<Rightarrow> 16 word" where
  "max_int16 a m = (if sint m < sint a then a else m)"

fun np_max :: "16 word list \<Rightarrow> exn + 16 word" where
  "np_max [] =
     Inl (ValueError ''zero-size array to reduction operation maximum which has no identity'')"
| "np_max (x # xs) = Inr (fold max_int16 xs x)"

text \<open>
  \<open>int16 / int16\<close> is true division into \<open>float64\<close>. Division by zero warns
  and does not raise: \<open>0/0\<close> is NaN, and \<open>x/0\<close> is the infinity of \<open>x\<close>'s sign.
\<close>

definition np_true_divide :: "16 word \<Rightarrow> 16 word \<Rightarrow> float64" where
  "np_true_divide x m =
     (if sint m = 0
      then (if sint x = 0 then NaN else if 0 < sint x then PosInf else NegInf)
      else Fin (of_int (sint x) / of_int (sint m)))"

text \<open>Python's \<open>int / int\<close>: true division, \<open>ZeroDivisionError\<close> on a zero divisor.\<close>

definition py_truediv :: "nat \<Rightarrow> nat \<Rightarrow> exn + rat" where
  "py_truediv a b =
     (if b = 0 then Inl (ZeroDivisionError ''division by zero'')
      else Inr (of_nat a / of_nat b))"

text \<open>
  \<open>np.linspace(start, stop, num)\<close> with its default \<open>endpoint=True\<close>, in double
  arithmetic, each operation rounded: the divisor is \<open>num - 1\<close>, \<open>delta\<close> is
  \<open>stop - start\<close>, \<open>step\<close> is \<open>delta / div\<close>; the points are \<open>i * step\<close>
  (or \<open>i / div * delta\<close> when the step is zero, and \<open>i * delta\<close> when the divisor
  is), then \<open>start\<close> is added, and for more than one point the last one is set to
  \<open>stop\<close> itself. The arguments are given as for \<open>Fin\<close>; the indices \<open>i\<close> are
  doubles without rounding (an array has fewer than \<open>2 ^ 53\<close> elements).
\<close>

definition np_linspace :: "rat \<Rightarrow> rat \<Rightarrow> nat \<Rightarrow> rat list" where
  "np_linspace start stop num =
     (let dv = num - 1;
          delta = float_sub (fl stop) (fl start);
          y = map of_nat [0..<num];
          y = (if 0 < dv
               then (let step = fl (delta / of_nat dv)
                     in if step = 0 then map (\<lambda>i. fl (fl (i / of_nat dv) * delta)) y
                        else map (\<lambda>i. fl (i * step)) y)
               else map (\<lambda>i. fl (i * delta)) y);
          y = map (\<lambda>v. float_add v (fl start)) y
      in if 1 < num then y[num - 1 := stop] else y)"

section \<open>The application\<close>

text \<open>The matplotlib axes: the lines drawn (x, y, colour), the labels, the grid.\<close>

record axes =
  lines :: "(ndarray \<times> ndarray \<times> string) list"
  xlabel :: string
  ylabel :: string
  title :: string
  grid_on :: bool

datatype command = Cmd_guardar_imagen_completa | Cmd_reproducir_audio

datatype widget = FigureCanvas | Button string command

text \<open>
  The fields of \<open>AudioApp\<close> (\<open>fig\<close> and \<open>ax\<close> are one figure with one axes),
  and what the process has done outside itself: the lines printed, the files
  \<open>savefig\<close> wrote, the paths handed to \<open>winsound.PlaySound\<close>.
\<close>

record AudioApp =
  wav_file_name :: string
  audio_data :: "ndarray option"
  sampling_rate :: "nat option"
  time :: "ndarray option"
  ax :: axes
  widgets :: "widget list"
  console :: "string list"
  written :: "(string \<times> axes) list"
  played :: "string list"

definition py_print :: "string \<Rightarrow> AudioApp \<Rightarrow> AudioApp" where
  "py_print line s = s\<lparr>console := console s @ [line]\<rparr>"

text \<open>
  A method runs on the state and returns the state it leaves, with the exception it
  raised, if any: what a statement assigned before a later one raises stays assigned.
\<close>

text \<open>The body of the \<open>try\<close> of \<open>load_audio\<close>.\<close>

definition load_audio_try :: "filesystem \<Rightarrow> AudioApp \<Rightarrow> AudioApp \<times> exn option" where
  "load_audio_try fs s =
     (case wave_open fs (wav_file_name s) of
        Inl e \<Rightarrow> (s, Some e)
      | Inr wave_file \<Rightarrow>
          let rate = getframerate wave_file;
              s1 = s\<lparr>sampling_rate := Some rate\<rparr>
          in (case np_frombuffer_int16 (readframes_all wave_file) of
                Inl e \<Rightarrow> (s1, Some e)
              | Inr raw \<Rightarrow>
                  let s2 = s1\<lparr>audio_data := Some (Int16Array raw)\<rparr>
                  in (case np_max (map np_abs raw) of
                        Inl e \<Rightarrow> (s2, Some e)
                      | Inr m \<Rightarrow>
                          let norm = map (\<lambda>x. np_true_divide x m) raw;
                              s3 = s2\<lparr>audio_data := Some (Float64Array norm)\<rparr>
                          in (case py_truediv (length norm) rate of
                                Inl e \<Rightarrow> (s3, Some e)
                              | Inr stop \<Rightarrow>
                                  (s3\<lparr>time := Some (Float64Array
                                       (map Fin (np_linspace 0 stop (length norm))))\<rparr>,
                                   None)))))"

text \<open>\<open>load_audio\<close>: the body under \<open>except Exception as e: print(...)\<close>.\<close>

definition load_audio :: "filesystem \<Rightarrow> AudioApp \<Rightarrow> AudioApp \<times> exn option" where
  "load_audio fs s =
     (case load_audio_try fs s of
        (s', None) \<Rightarrow> (s', None)
      | (s', Some e) \<Rightarrow>
          if is_Exception e
          then (py_print (''Error loading audio: '' @ exn_str e) s', None)
          else (s', Some e))"

text \<open>A natural number in decimal, as \<open>str\<close> prints it.\<close>

fun py_str_nat :: "nat \<Rightarrow> string" where
  "py_str_nat n =
     (if n < 10 then [char_of (48 + n)]
      else py_str_nat (n div 10) @ [char_of (48 + n mod 10)])"

text \<open>
  \<open>Axes.plot(x, y, color=...)\<close>: matplotlib refuses \<open>None\<close> for x or y, and x and y
  of different lengths; otherwise it adds the line.
\<close>

definition ax_plot :: "ndarray option \<Rightarrow> ndarray option \<Rightarrow> string \<Rightarrow> axes \<Rightarrow> exn + axes" where
  "ax_plot x y color a =
     (case (x, y) of
        (Some xs, Some ys) \<Rightarrow>
          if np_len xs = np_len ys
          then Inr (a\<lparr>lines := lines a @ [(xs, ys, color)]\<rparr>)
          else Inl (ValueError
                 (''x and y must have same first dimension, but have shapes ('' @
                  py_str_nat (np_len xs) @ '',) and ('' @ py_str_nat (np_len ys) @ '',)''))
      | _ \<Rightarrow> Inl (ValueError ''x, y, and format string must not be None''))"

definition set_xlabel :: "string \<Rightarrow> axes \<Rightarrow> axes" where
  "set_xlabel l a = a\<lparr>xlabel := l\<rparr>"

definition set_ylabel :: "string \<Rightarrow> axes \<Rightarrow> axes" where
  "set_ylabel l a = a\<lparr>ylabel := l\<rparr>"

definition set_title :: "string \<Rightarrow> axes \<Rightarrow> axes" where
  "set_title l a = a\<lparr>title := l\<rparr>"

text \<open>\<open>Axes.grid()\<close> with no argument toggles the grid.\<close>

definition ax_grid :: "axes \<Rightarrow> axes" where
  "ax_grid a = a\<lparr>grid_on := \<not> grid_on a\<rparr>"

definition plot_audio :: "AudioApp \<Rightarrow> AudioApp \<times> exn option" where
  "plot_audio s =
     (case ax_plot (time s) (audio_data s) ''b'' (ax s) of
        Inl e \<Rightarrow> (s, Some e)
      | Inr a \<Rightarrow>
          (s\<lparr>ax := ax_grid (set_title ''Onda Sonora''
                     (set_ylabel ''Amplitud'' (set_xlabel ''Tiempo [s]'' a)))\<rparr>,
           None))"

definition create_widgets :: "AudioApp \<Rightarrow> AudioApp \<times> exn option" where
  "create_widgets s =
     (s\<lparr>widgets := widgets s @
          [FigureCanvas,
           Button ''Guardar Imagen Completa'' Cmd_guardar_imagen_completa,
           Button ''Reproducir Audio'' Cmd_reproducir_audio]\<rparr>,
      None)"

text \<open>\<open>plt.subplots\<close>: a fresh figure, nothing drawn, no labels, grid off.\<close>

definition plt_subplots :: axes where
  "plt_subplots = \<lparr>lines = [], xlabel = [], ylabel = [], title = [], grid_on = False\<rparr>"

text \<open>The assignments of \<open>__init__\<close>, before it calls any method.\<close>

definition AudioApp_new :: AudioApp where
  "AudioApp_new =
     \<lparr>wav_file_name = ''u.wav'', audio_data = None, sampling_rate = None, time = None,
      ax = plt_subplots, widgets = [], console = [], written = [], played = []\<rparr>"

text \<open>\<open>__init__\<close>: load, plot, create the widgets; an exception ends it there.\<close>

definition AudioApp_init :: "filesystem \<Rightarrow> AudioApp \<times> exn option" where
  "AudioApp_init fs =
     (case load_audio fs AudioApp_new of
        (s1, Some e) \<Rightarrow> (s1, Some e)
      | (s1, None) \<Rightarrow>
          (case plot_audio s1 of
             (s2, Some e) \<Rightarrow> (s2, Some e)
           | (s2, None) \<Rightarrow> create_widgets s2))"

text \<open>
  \<open>Figure.savefig(path)\<close> writes the figure, or raises and writes nothing: for a
  format it does not know, a directory that is not there, a file it may not write.
  \<open>save_error\<close> says which, for each path: the exception raised, or \<open>None\<close> when
  the file is written.
\<close>

definition fig_savefig ::
  "(string \<Rightarrow> exn option) \<Rightarrow> string \<Rightarrow> AudioApp \<Rightarrow> AudioApp \<times> exn option" where
  "fig_savefig save_error path s =
     (case save_error path of
        Some e \<Rightarrow> (s, Some e)
      | None \<Rightarrow> (s\<lparr>written := written s @ [(path, ax s)]\<rparr>, None))"

text \<open>
  \<open>guardar_imagen_completa\<close>. The argument \<open>archivo_guardado\<close> is what
  \<open>asksaveasfilename\<close> returned: the chosen path, or the empty string when the dialog
  was cancelled. The method has no \<open>try\<close>: what \<open>savefig\<close> raises leaves it, before
  the \<open>print\<close>.
\<close>

definition guardar_imagen_completa ::
  "(string \<Rightarrow> exn option) \<Rightarrow> string \<Rightarrow> AudioApp \<Rightarrow> AudioApp \<times> exn option" where
  "guardar_imagen_completa save_error archivo_guardado s =
     (if archivo_guardado \<noteq> []
      then (case fig_savefig save_error archivo_guardado s of
              (s', Some e) \<Rightarrow> (s', Some e)
            | (s', None) \<Rightarrow>
                (py_print (''Imagen guardada: '' @ archivo_guardado) s', None))
      else (s, None))"

text \<open>
  \<open>reproducir_audio\<close>. \<open>winsound\<close> is imported on Windows only: elsewhere the name
  is undefined and using it raises \<open>NameError\<close>. On Windows \<open>PlaySound\<close> either
  plays the file at the path or raises \<open>RuntimeError\<close>; \<open>play_error\<close> says which,
  for each path.
\<close>

definition winsound_PlaySound ::
  "bool \<Rightarrow> (string \<Rightarrow> string option) \<Rightarrow> string \<Rightarrow> AudioApp \<Rightarrow> AudioApp \<times> exn option" where
  "winsound_PlaySound windows play_error path s =
     (if \<not> windows then (s, Some (NameError ''name 'winsound' is not defined''))
      else (case play_error path of
              Some m \<Rightarrow> (s, Some (RuntimeError m))
            | None \<Rightarrow> (s\<lparr>played := played s @ [path]\<rparr>, None)))"

definition reproducir_audio ::
  "bool \<Rightarrow> (string \<Rightarrow> string option) \<Rightarrow> AudioApp \<Rightarrow> AudioApp \<times> exn option" where
  "reproducir_audio windows play_error s =
     (case winsound_PlaySound windows play_error (wav_file_name s) s of
        (s', None) \<Rightarrow> (s', None)
      | (s', Some e) \<Rightarrow>
          if is_Exception e
          then (py_print (''Error reproduciendo audio: '' @ exn_str e) s', None)
          else (s', Some e))"

section \<open>The layout of 16-bit PCM data\<close>

text \<open>
  The data chunk of a 16-bit PCM file: frame after frame, within a frame one sample per
  channel, each sample two bytes, low byte first.
\<close>

definition int16_bytes :: "16 word \<Rightarrow> 8 word list" where
  "int16_bytes x = [ucast x, ucast (drop_bit 8 x)]"

definition pcm16_frames :: "16 word list list \<Rightarrow> 8 word list" where
  "pcm16_frames fr = concat (map int16_bytes (concat fr))"

text \<open>
  The number a byte pair stands for as a signed 16-bit sample, low byte first, in two's
  complement: from 32768 on the unsigned value stands for itself less 65536.
\<close>

definition int16_value :: "8 word \<Rightarrow> 8 word \<Rightarrow> int" where
  "int16_value lo hi =
     (if unat lo + 256 * unat hi < 32768 then int (unat lo + 256 * unat hi)
      else int (unat lo + 256 * unat hi) - 65536)"

section \<open>Lemmas on the numpy operations\<close>

lemmas load_defs = load_audio_try_def wave_open_def getframerate_def
  readframes_all_def np_frombuffer_int16_def py_truediv_def

lemma length_le_int16s: "length (le_int16s bs) = length bs div 2"
  by (induction bs rule: le_int16s.induct) simp_all

lemma le_int16s_nth:
  "i < length bs div 2 \<Longrightarrow>
   le_int16s bs ! i = word_of_nat (unat (bs ! (2 * i)) + 256 * unat (bs ! (2 * i + 1)))"
proof (induction bs arbitrary: i rule: le_int16s.induct)
  case (1 lo hi bs)
  then show ?case by (cases i) simp_all
qed simp_all

lemma le_int16s_zeros: "le_int16s (replicate (2 * n) 0) = replicate n 0"
  by (induction n) simp_all

lemma sint_of_byte_pair:
  fixes lo hi :: "8 word"
  shows "sint (word_of_nat (unat lo + 256 * unat hi) :: 16 word) =
    (if unat lo + 256 * unat hi < 32768 then int (unat lo + 256 * unat hi)
     else int (unat lo + 256 * unat hi) - 65536)"
proof -
  define u where "u = unat lo + 256 * unat hi"
  have "unat lo < 256" "unat hi < 256"
    using unsigned_less [of lo, where 'a = nat] unsigned_less [of hi, where 'a = nat]
    by simp_all
  then have b: "u < 65536" by (simp add: u_def)
  have "sint (word_of_nat u :: 16 word) = signed_take_bit 15 (int u)"
    by (simp add: signed_of_nat)
  also have "\<dots> = (int u + 32768) mod 65536 - 32768"
    by (simp add: signed_take_bit_eq_take_bit_shift take_bit_eq_mod)
  also have "\<dots> = (if u < 32768 then int u else int u - 65536)"
  proof (cases "u < 32768")
    case True
    then show ?thesis by (simp add: mod_pos_pos_trivial)
  next
    case False
    have e: "int u + 32768 = (int u - 32768) + 65536" by simp
    have "(int u + 32768) mod 65536 = (int u - 32768) mod 65536"
      by (subst e) (simp only: mod_add_self2)
    also have "\<dots> = int u - 32768" using b False by (simp add: mod_pos_pos_trivial)
    finally show ?thesis using False by simp
  qed
  finally show ?thesis by (simp only: u_def)
qed

lemma length_np_linspace: "length (np_linspace a b n) = n"
  by (simp add: np_linspace_def Let_def)

lemma fl_zero: "fl 0 = 0"
  by (simp add: fl_def)

lemma fl_one: "fl 1 = 1"
  by code_simp

lemma fl_half: "fl (1 / 2) = 1 / 2"
  by code_simp

lemma np_linspace_first: "0 < n \<Longrightarrow> np_linspace 0 b n ! 0 = 0"
  by (cases "n = 1")
    (simp_all add: np_linspace_def Let_def nth_list_update fl_zero float_add_def
      float_sub_def upt_conv_Cons)


lemma np_linspace_last: "1 < n \<Longrightarrow> last (np_linspace a b n) = b"
  by (simp add: np_linspace_def Let_def last_list_update)

lemma np_max_Inr: "xs \<noteq> [] \<Longrightarrow> \<exists>m. np_max xs = Inr m"
  by (cases xs) simp_all

lemma np_max_Inl: "np_max xs = Inl e \<Longrightarrow> xs = [] \<and> is_Exception e"
  by (cases xs) auto

lemma load_audio_try_success:
  assumes "snd (load_audio_try fs s) = None"
  shows "\<exists>w m. fs (wav_file_name s) = PCM w \<and> even (length (frames w)) \<and>
           np_max (map np_abs (le_int16s (frames w))) = Inr m \<and> framerate w \<noteq> 0 \<and>
           fst (load_audio_try fs s) =
             s\<lparr>sampling_rate := Some (framerate w),
               audio_data := Some (Float64Array
                 (map (\<lambda>x. np_true_divide x m) (le_int16s (frames w)))),
               time := Some (Float64Array (map Fin
                 (np_linspace 0
                    (of_nat (length (frames w) div 2) / of_nat (framerate w))
                    (length (frames w) div 2))))\<rparr>"
  using assms
  by (auto simp: load_defs Let_def length_le_int16s
      split: option.splits disk_file.splits sum.splits if_splits)

lemma load_audio_try_PCM:
  assumes "fs (wav_file_name s) = PCM w" and "even (length (frames w))"
    and "np_max (map np_abs (le_int16s (frames w))) = Inr m" and "framerate w \<noteq> 0"
  shows "load_audio_try fs s =
           (s\<lparr>sampling_rate := Some (framerate w),
               audio_data := Some (Float64Array
                 (map (\<lambda>x. np_true_divide x m) (le_int16s (frames w)))),
               time := Some (Float64Array (map Fin
                 (np_linspace 0
                    (of_nat (length (frames w) div 2) / of_nat (framerate w))
                    (length (frames w) div 2))))\<rparr>, None)"
  using assms by (simp add: load_defs Let_def length_le_int16s)

lemma load_audio_try_raises:
  "snd (load_audio_try fs s) = Some e \<Longrightarrow> is_Exception e"
  by (auto simp: load_defs Let_def dest: np_max_Inl
      split: option.splits disk_file.splits sum.splits if_splits)

lemma load_audio_of_success:
  "snd (load_audio_try fs s) = None \<Longrightarrow> load_audio fs s = load_audio_try fs s"
  by (cases "load_audio_try fs s") (simp add: load_audio_def)

lemma word_of_byte_pair:
  fixes x :: "16 word"
  shows "word_of_nat (unat (ucast x :: 8 word) + 256 * unat (ucast (drop_bit 8 x) :: 8 word)) = x"
proof -
  have a: "unat (ucast x :: 8 word) = unat x mod 256"
    by (simp add: unsigned_ucast_eq take_bit_eq_mod)
  have lt: "unat x < 65536" using unsigned_less [of x, where 'a = nat] by simp
  have d: "unat (drop_bit 8 x) = unat x div 256"
    by (simp add: drop_bit_eq_div unat_div)
  have "unat (ucast (drop_bit 8 x) :: 8 word) = unat (drop_bit 8 x) mod 256"
    by (simp only: unsigned_ucast_eq take_bit_eq_mod) simp
  with lt have b: "unat (ucast (drop_bit 8 x) :: 8 word) = unat x div 256"
    by (simp only: d) simp
  have c: "unat (ucast x :: 8 word) + 256 * unat (ucast (drop_bit 8 x) :: 8 word) = unat x"
    by (simp only: a b) simp
  show ?thesis by (subst c) simp
qed

lemma le_int16s_bytes: "le_int16s (concat (map int16_bytes xs)) = xs"
proof (induction xs)
  case Nil
  show ?case by simp
next
  case (Cons x xs)
  have "le_int16s (concat (map int16_bytes (x # xs))) =
        word_of_nat (unat (ucast x :: 8 word) + 256 * unat (ucast (drop_bit 8 x) :: 8 word))
          # le_int16s (concat (map int16_bytes xs))"
    by (simp add: int16_bytes_def)
  then show ?case by (simp only: word_of_byte_pair Cons.IH)
qed

lemma le_int16s_pcm16_frames: "le_int16s (pcm16_frames fr) = concat fr"
  by (simp add: pcm16_frames_def le_int16s_bytes)

lemma length_bytes: "length (concat (map int16_bytes xs)) = 2 * length xs"
  by (induction xs) (simp_all add: int16_bytes_def)

lemma length_pcm16_frames: "length (pcm16_frames fr) = 2 * length (concat fr)"
  by (simp add: pcm16_frames_def length_bytes)

lemma length_concat_uniform:
  "\<forall>f \<in> set fr. length f = c \<Longrightarrow> length (concat fr) = length fr * c"
  by (induction fr) simp_all

lemma concat_nth_uniform:
  "\<forall>f \<in> set fr. length f = c \<Longrightarrow> j < length fr \<Longrightarrow> k < c \<Longrightarrow>
   concat fr ! (j * c + k) = fr ! j ! k"
proof (induction fr arbitrary: j)
  case Nil
  then show ?case by simp
next
  case (Cons f fr)
  show ?case
  proof (cases j)
    case 0
    with Cons.prems show ?thesis by (simp add: nth_append)
  next
    case (Suc j')
    with Cons.prems have "concat fr ! (j' * c + k) = fr ! j' ! k"
      by (intro Cons.IH) simp_all
    with Suc Cons.prems show ?thesis by (simp add: nth_append add.assoc)
  qed
qed

lemma console_load_audio_try: "console (fst (load_audio_try fs s)) = console s"
  by (auto simp: load_defs Let_def
      split: option.splits disk_file.splits sum.splits if_splits)

lemma load_audio_of_raise:
  "snd (load_audio_try fs s) = Some e \<Longrightarrow>
   load_audio fs s =
     (py_print (''Error loading audio: '' @ exn_str e) (fst (load_audio_try fs s)), None)"
  using load_audio_try_raises [of fs s e]
  by (cases "load_audio_try fs s") (simp add: load_audio_def)

lemma load_audio_returns: "snd (load_audio fs s) = None"
proof (cases "snd (load_audio_try fs s)")
  case None
  then show ?thesis by (simp add: load_audio_of_success)
next
  case (Some e)
  then show ?thesis by (simp add: load_audio_of_raise)
qed

lemma np_abs_zero: "np_abs 0 = 0"
  by (simp add: np_abs_def)

lemma fold_max_zeros: "fold max_int16 (replicate n 0) 0 = 0"
  by (induction n) (simp_all add: max_int16_def)

lemma np_max_zeros: "0 < n \<Longrightarrow> np_max (replicate n 0) = Inr 0"
proof (cases n)
  case (Suc k)
  have "np_max (0 # replicate k 0) = Inr (fold max_int16 (replicate k 0) 0)"
    by (simp only: np_max.simps)
  with Suc show ?thesis by (simp only: fold_max_zeros replicate_Suc)
qed simp

lemma normalize_zeros: "np_true_divide 0 0 = NaN"
  by (simp add: np_true_divide_def)

lemma loaded_lengths:
  assumes "snd (load_audio_try fs s) = None"
  shows "\<exists>d t. audio_data (fst (load_audio fs s)) = Some d \<and>
               time (fst (load_audio fs s)) = Some t \<and> np_len t = np_len d"
proof -
  from load_audio_try_success [OF assms] obtain w :: wave_read and m where
    s': "fst (load_audio_try fs s) =
             s\<lparr>sampling_rate := Some (framerate w),
               audio_data := Some (Float64Array
                 (map (\<lambda>x. np_true_divide x m) (le_int16s (frames w)))),
               time := Some (Float64Array (map Fin
                 (np_linspace 0
                    (of_nat (length (frames w) div 2) / of_nat (framerate w))
                    (length (frames w) div 2))))\<rparr>"
    by blast
  then show ?thesis
    by (simp add: load_audio_of_success [OF assms] length_np_linspace length_le_int16s)
qed

lemma ax_load_audio_try: "ax (fst (load_audio_try fs s)) = ax s"
  by (auto simp: load_defs Let_def
      split: option.splits disk_file.splits sum.splits if_splits)

lemma ax_load_audio: "ax (fst (load_audio fs s)) = ax s"
proof (cases "snd (load_audio_try fs s)")
  case None
  then show ?thesis by (simp add: load_audio_of_success ax_load_audio_try)
next
  case (Some e)
  then show ?thesis by (simp add: load_audio_of_raise py_print_def ax_load_audio_try)
qed

lemmas np_defs = np_abs_def max_int16_def np_true_divide_def np_linspace_def
  float_add_def float_sub_def fl_zero fl_one fl_half

section \<open>Normalisation\<close>

text \<open>
  Claim C1: for every valid 16-bit PCM file that \<open>load_audio\<close> accepts, the
  normalised samples have maximum absolute value 1 and none lies outside [-1, 1].
  The code breaks this. For the mono file with the two samples -32768 and 16384 (bytes
  00 80 00 40) \<open>np.abs\<close> leaves -32768 as it is, the maximum is 16384, and the
  first normalised sample is -2. No error is raised or logged.
\<close>

theorem normalized_sample_outside_unit_interval:
  "load_audio
     ((\<lambda>_. NoFile [])(''u.wav'' :=
        PCM \<lparr>nchannels = 1, sampwidth = 2, framerate = 8000,
             frames = [0x00, 0x80, 0x00, 0x40]\<rparr>))
     AudioApp_new =
   (AudioApp_new\<lparr>sampling_rate := Some 8000,
      audio_data := Some (Float64Array [Fin (- 2), Fin 1]),
      time := Some (Float64Array [Fin 0, Fin (1 / 4000)])\<rparr>, None)"
  by (simp add: load_audio_def load_defs np_defs AudioApp_new_def Let_def)

section \<open>Errors of the loader\<close>

text \<open>
  Claim C9: \<open>load_audio\<close> never hands an exception to its caller, whatever the
  file system holds: every error of the body is caught and printed. For a silent file
  (\<open>n > 0\<close> samples, all zero) the sample sequence it leaves is \<open>n\<close> NaNs, and
  when the frame rate is positive nothing is raised inside and nothing is printed.
\<close>

theorem load_audio_swallows_every_error:
  "snd (load_audio fs s) = None \<and>
   (\<forall>e. snd (load_audio_try fs s) = Some e \<longrightarrow>
      console (fst (load_audio fs s)) = console s @ [''Error loading audio: '' @ exn_str e]) \<and>
   (fs (wav_file_name s) = PCM w \<and> frames w = replicate (2 * n) 0 \<and> 0 < n \<longrightarrow>
      audio_data (fst (load_audio fs s)) = Some (Float64Array (replicate n NaN)) \<and>
      (0 < framerate w \<longrightarrow>
         snd (load_audio_try fs s) = None \<and> console (fst (load_audio fs s)) = console s))"
proof (intro conjI allI impI)
  show "snd (load_audio fs s) = None" by (rule load_audio_returns)
next
  fix e assume "snd (load_audio_try fs s) = Some e"
  then show "console (fst (load_audio fs s)) = console s @ [''Error loading audio: '' @ exn_str e]"
    by (simp add: load_audio_of_raise py_print_def console_load_audio_try)
next
  assume a: "fs (wav_file_name s) = PCM w \<and> frames w = replicate (2 * n) 0 \<and> 0 < n"
  then have raw: "le_int16s (frames w) = replicate n 0"
    by (simp add: le_int16s_zeros)
  show "audio_data (fst (load_audio fs s)) = Some (Float64Array (replicate n NaN))"
  proof (cases "framerate w = 0")
    case True
    with a raw have "load_audio_try fs s =
        (s\<lparr>sampling_rate := Some 0,
           audio_data := Some (Float64Array (replicate n NaN))\<rparr>,
         Some (ZeroDivisionError ''division by zero''))"
      by (simp add: load_defs Let_def np_abs_zero np_max_zeros normalize_zeros)
    then show ?thesis by (simp add: load_audio_def py_print_def)
  next
    case False
    with a raw have "load_audio_try fs s =
        (s\<lparr>sampling_rate := Some (framerate w),
           audio_data := Some (Float64Array (replicate n NaN)),
           time := Some (Float64Array (map Fin
             (np_linspace 0 (of_nat n / of_nat (framerate w)) n)))\<rparr>, None)"
      by (simp add: load_defs Let_def np_abs_zero np_max_zeros normalize_zeros)
    then show ?thesis by (simp add: load_audio_def)
  qed
  assume r: "0 < framerate w"
  with a raw have t: "load_audio_try fs s =
        (s\<lparr>sampling_rate := Some (framerate w),
           audio_data := Some (Float64Array (replicate n NaN)),
           time := Some (Float64Array (map Fin
             (np_linspace 0 (of_nat n / of_nat (framerate w)) n)))\<rparr>, None)"
    by (simp add: load_defs Let_def np_abs_zero np_max_zeros normalize_zeros)
  then show "snd (load_audio_try fs s) = None" by simp
  from t show "console (fst (load_audio fs s)) = console s" by (simp add: load_audio_def)
qed

text \<open>
  The theorem at two inputs: no file at all (the error is printed), and a silent mono
  file of two samples at 8000 Hz (two NaNs, nothing printed).
\<close>

theorem load_audio_swallows_every_error_witness:
  "snd (load_audio (\<lambda>_. NoFile (''[Errno 2] No such file or directory: '' @ [CHR 0x27] @ ''u.wav'' @ [CHR 0x27])) AudioApp_new) = None \<and>
   console (fst (load_audio (\<lambda>_. NoFile (''[Errno 2] No such file or directory: '' @ [CHR 0x27] @ ''u.wav'' @ [CHR 0x27])) AudioApp_new)) =
     [''Error loading audio: '' @ (''[Errno 2] No such file or directory: '' @ [CHR 0x27] @ ''u.wav'' @ [CHR 0x27])] \<and>
   audio_data (fst (load_audio
     ((\<lambda>_. NoFile [])(''u.wav'' :=
        PCM \<lparr>nchannels = 1, sampwidth = 2, framerate = 8000,
             frames = replicate (2 * 2) 0\<rparr>))
     AudioApp_new)) = Some (Float64Array (replicate 2 NaN)) \<and>
   console (fst (load_audio
     ((\<lambda>_. NoFile [])(''u.wav'' :=
        PCM \<lparr>nchannels = 1, sampwidth = 2, framerate = 8000,
             frames = replicate (2 * 2) 0\<rparr>))
     AudioApp_new)) = []"
proof -
  have e: "snd (load_audio_try (\<lambda>_. NoFile (''[Errno 2] No such file or directory: '' @ [CHR 0x27] @ ''u.wav'' @ [CHR 0x27])) AudioApp_new) =
      Some (FileNotFoundError (''[Errno 2] No such file or directory: '' @ [CHR 0x27] @ ''u.wav'' @ [CHR 0x27]))"
    by (simp add: load_defs AudioApp_new_def)
  have c: "console AudioApp_new = []" "wav_file_name AudioApp_new = ''u.wav''"
    by (simp_all add: AudioApp_new_def)
  show ?thesis
    using e c
      load_audio_swallows_every_error [of "(\<lambda>_. NoFile (''[Errno 2] No such file or directory: '' @ [CHR 0x27] @ ''u.wav'' @ [CHR 0x27]))" AudioApp_new
        "\<lparr>nchannels = 1, sampwidth = 2, framerate = 8000, frames = []\<rparr>" 0]
      load_audio_swallows_every_error
        [of "(\<lambda>_. NoFile [])(''u.wav'' :=
        PCM \<lparr>nchannels = 1, sampwidth = 2, framerate = 8000,
             frames = replicate (2 * 2) 0\<rparr>)"
            AudioApp_new
            "\<lparr>nchannels = 1, sampwidth = 2, framerate = 8000,
              frames = replicate (2 * 2) 0\<rparr>" 2]
    by simp
qed

section \<open>The time axis\<close>

text \<open>
  Claim C4: after every successful load (the body of \<open>load_audio\<close> raised
  nothing), the time axis and the sample sequence are both set and have the same
  length.
\<close>

theorem time_axis_length_matches:
  assumes "snd (load_audio_try fs s) = None"
  shows "\<exists>d t. audio_data (fst (load_audio fs s)) = Some d \<and>
               time (fst (load_audio fs s)) = Some t \<and> np_len t = np_len d"
  using assms by (rule loaded_lengths)

text \<open>The theorem on a mono file of three samples (1, 2, 3) at 3 Hz.\<close>

theorem time_axis_length_matches_witness:
  "snd (load_audio_try
     ((\<lambda>_. NoFile [])(''u.wav'' :=
        PCM \<lparr>nchannels = 1, sampwidth = 2, framerate = 3,
             frames = [1, 0, 2, 0, 3, 0]\<rparr>))
     AudioApp_new) = None \<and>
   (\<exists>d t. audio_data (fst (load_audio
     ((\<lambda>_. NoFile [])(''u.wav'' :=
        PCM \<lparr>nchannels = 1, sampwidth = 2, framerate = 3,
             frames = [1, 0, 2, 0, 3, 0]\<rparr>))
     AudioApp_new)) = Some d \<and>
     time (fst (load_audio
     ((\<lambda>_. NoFile [])(''u.wav'' :=
        PCM \<lparr>nchannels = 1, sampwidth = 2, framerate = 3,
             frames = [1, 0, 2, 0, 3, 0]\<rparr>))
     AudioApp_new)) = Some t \<and> np_len t = np_len d)"
proof -
  have h: "snd (load_audio_try
     ((\<lambda>_. NoFile [])(''u.wav'' :=
        PCM \<lparr>nchannels = 1, sampwidth = 2, framerate = 3,
             frames = [1, 0, 2, 0, 3, 0]\<rparr>))
     AudioApp_new) = None"
    by (simp add: load_defs np_defs AudioApp_new_def Let_def)
  from h time_axis_length_matches [OF h] show ?thesis by (rule conjI)
qed




section \<open>A failed load and the renderer\<close>

lemma load_audio_missing_file:
  assumes "fs (wav_file_name s) = NoFile m"
  shows "load_audio fs s =
    (s\<lparr>console := console s @ [''Error loading audio: '' @ m]\<rparr>, None)"
  using assms by (simp add: load_audio_def load_defs py_print_def)

text \<open>
  Claim C2 says that loading a path with no file yields a FileLoadError and that the
  renderer is not reached afterwards. With no file on disk \<open>load_audio\<close> returns
  normally (it prints the error and raises nothing), and \<open>__init__\<close> goes on to
  \<open>plot_audio\<close>: the result of \<open>__init__\<close> is the result of \<open>plot_audio\<close>
  on the state the failed load left, here the \<open>ValueError\<close> of \<open>Axes.plot\<close>.
\<close>

theorem failed_load_reaches_renderer_counterexample:
  "snd (load_audio (\<lambda>_. NoFile (''[Errno 2] No such file or directory: '' @ [CHR 0x27] @ ''u.wav'' @ [CHR 0x27])) AudioApp_new) = None \<and>
   AudioApp_init (\<lambda>_. NoFile (''[Errno 2] No such file or directory: '' @ [CHR 0x27] @ ''u.wav'' @ [CHR 0x27])) =
     plot_audio (fst (load_audio (\<lambda>_. NoFile (''[Errno 2] No such file or directory: '' @ [CHR 0x27] @ ''u.wav'' @ [CHR 0x27])) AudioApp_new)) \<and>
   snd (AudioApp_init (\<lambda>_. NoFile (''[Errno 2] No such file or directory: '' @ [CHR 0x27] @ ''u.wav'' @ [CHR 0x27]))) =
     Some (ValueError ''x, y, and format string must not be None'')"
proof -
  have l: "load_audio (\<lambda>_. NoFile (''[Errno 2] No such file or directory: '' @ [CHR 0x27] @ ''u.wav'' @ [CHR 0x27])) AudioApp_new =
    (AudioApp_new\<lparr>console := console AudioApp_new @
        [''Error loading audio: '' @ (''[Errno 2] No such file or directory: '' @ [CHR 0x27] @ ''u.wav'' @ [CHR 0x27])]\<rparr>, None)"
    by (rule load_audio_missing_file) simp
  have n: "time AudioApp_new = None" by (simp add: AudioApp_new_def)
  show ?thesis
    unfolding AudioApp_init_def l by (simp add: plot_audio_def ax_plot_def n)
qed

text \<open>
  Claim C2 as amended: for every path that names no file, \<open>load_audio\<close> raises
  nothing to its caller; the \<open>FileNotFoundError\<close> is caught and its text printed
  after \<open>Error loading audio:\<close>, and the sample data, the sample rate and the time
  axis stay as they were (unset, in \<open>__init__\<close>). \<open>__init__\<close> then still calls
  \<open>plot_audio\<close>, on that state.
\<close>

theorem failed_load_is_logged_and_plot_still_called:
  "(fs (wav_file_name s) = NoFile m \<longrightarrow>
      load_audio fs s =
        (s\<lparr>console := console s @ [''Error loading audio: '' @ m]\<rparr>, None)) \<and>
   (fs ''u.wav'' = NoFile m \<longrightarrow>
      audio_data (fst (load_audio fs AudioApp_new)) = None \<and>
      sampling_rate (fst (load_audio fs AudioApp_new)) = None \<and>
      time (fst (load_audio fs AudioApp_new)) = None \<and>
      AudioApp_init fs = plot_audio (fst (load_audio fs AudioApp_new)))"
proof (intro conjI impI)
  assume "fs (wav_file_name s) = NoFile m"
  then show "load_audio fs s =
        (s\<lparr>console := console s @ [''Error loading audio: '' @ m]\<rparr>, None)"
    by (rule load_audio_missing_file)
next
  assume a: "fs ''u.wav'' = NoFile m"
  have w: "wav_file_name AudioApp_new = ''u.wav''" by (simp add: AudioApp_new_def)
  have l: "load_audio fs AudioApp_new =
    (AudioApp_new\<lparr>console := console AudioApp_new @
        [''Error loading audio: '' @ m]\<rparr>, None)"
    by (rule load_audio_missing_file) (simp add: w a)
  have n: "time AudioApp_new = None" "audio_data AudioApp_new = None"
    "sampling_rate AudioApp_new = None"
    by (simp_all add: AudioApp_new_def)
  show "audio_data (fst (load_audio fs AudioApp_new)) = None"
    and "sampling_rate (fst (load_audio fs AudioApp_new)) = None"
    and "time (fst (load_audio fs AudioApp_new)) = None"
    by (simp_all add: l n)
  show "AudioApp_init fs = plot_audio (fst (load_audio fs AudioApp_new))"
    by (simp add: AudioApp_init_def l plot_audio_def ax_plot_def n)
qed

text \<open>The theorem on a disk whose only file is \<open>other.wav\<close>, with a bad header.\<close>

theorem failed_load_is_logged_and_plot_still_called_witness:
  "((\<lambda>_. NoFile (''[Errno 2] No such file or directory: '' @ [CHR 0x27] @ ''u.wav'' @ [CHR 0x27]))
      (''other.wav'' := BadHeader ''file does not start with RIFF id'')) ''u.wav'' =
     NoFile (''[Errno 2] No such file or directory: '' @ [CHR 0x27] @ ''u.wav'' @ [CHR 0x27]) \<and>
   load_audio ((\<lambda>_. NoFile (''[Errno 2] No such file or directory: '' @ [CHR 0x27] @ ''u.wav'' @ [CHR 0x27]))
      (''other.wav'' := BadHeader ''file does not start with RIFF id'')) AudioApp_new =
     (AudioApp_new\<lparr>console := console AudioApp_new @
        [''Error loading audio: '' @ (''[Errno 2] No such file or directory: '' @ [CHR 0x27] @ ''u.wav'' @ [CHR 0x27])]\<rparr>,
      None) \<and>
   audio_data (fst (load_audio
      ((\<lambda>_. NoFile (''[Errno 2] No such file or directory: '' @ [CHR 0x27] @ ''u.wav'' @ [CHR 0x27]))
      (''other.wav'' := BadHeader ''file does not start with RIFF id''))
      AudioApp_new)) = None \<and>
   sampling_rate (fst (load_audio
      ((\<lambda>_. NoFile (''[Errno 2] No such file or directory: '' @ [CHR 0x27] @ ''u.wav'' @ [CHR 0x27]))
      (''other.wav'' := BadHeader ''file does not start with RIFF id''))
      AudioApp_new)) = None \<and>
   time (fst (load_audio
      ((\<lambda>_. NoFile (''[Errno 2] No such file or directory: '' @ [CHR 0x27] @ ''u.wav'' @ [CHR 0x27]))
      (''other.wav'' := BadHeader ''file does not start with RIFF id''))
      AudioApp_new)) = None \<and>
   AudioApp_init ((\<lambda>_. NoFile (''[Errno 2] No such file or directory: '' @ [CHR 0x27] @ ''u.wav'' @ [CHR 0x27]))
      (''other.wav'' := BadHeader ''file does not start with RIFF id'')) =
     plot_audio (fst (load_audio
      ((\<lambda>_. NoFile (''[Errno 2] No such file or directory: '' @ [CHR 0x27] @ ''u.wav'' @ [CHR 0x27]))
      (''other.wav'' := BadHeader ''file does not start with RIFF id''))
      AudioApp_new))"
  (is "?H \<and> ?C1 \<and> ?C2")
proof -
  have w: "wav_file_name AudioApp_new = ''u.wav''" by (simp add: AudioApp_new_def)
  have h: ?H by simp
  then have h': "((\<lambda>_. NoFile (''[Errno 2] No such file or directory: '' @ [CHR 0x27] @ ''u.wav'' @ [CHR 0x27]))
      (''other.wav'' := BadHeader ''file does not start with RIFF id'')) (wav_file_name AudioApp_new) =
     NoFile (''[Errno 2] No such file or directory: '' @ [CHR 0x27] @ ''u.wav'' @ [CHR 0x27])"
    by (simp only: w)
  note t = failed_load_is_logged_and_plot_still_called
      [of "(\<lambda>_. NoFile (''[Errno 2] No such file or directory: '' @ [CHR 0x27] @ ''u.wav'' @ [CHR 0x27]))
      (''other.wav'' := BadHeader ''file does not start with RIFF id'')" AudioApp_new
          "''[Errno 2] No such file or directory: '' @ [CHR 0x27] @ ''u.wav'' @ [CHR 0x27]"]
  have "?H \<longrightarrow> ?C2" by (rule conjunct2 [OF t])
  moreover have ?C1 using conjunct1 [OF t] h' by (rule mp)
  ultimately show ?thesis using h by blast
qed

section \<open>The renderer\<close>

text \<open>
  Claim C7 gives the labels as "Time [s]", "Amplitude" and the title as "Sound Wave".
  The code's labels are Spanish: on a buffer of one sample \<open>plot_audio\<close> sets
  "Tiempo [s]", "Amplitud" and "Onda Sonora".
\<close>

theorem renderer_labels_counterexample:
  "xlabel (ax (fst (plot_audio
     (AudioApp_new\<lparr>time := Some (Float64Array [Fin 0]),
        audio_data := Some (Float64Array [Fin 1])\<rparr>)))) = ''Tiempo [s]'' \<and>
   ''Tiempo [s]'' \<noteq> ''Time [s]'' \<and>
   ylabel (ax (fst (plot_audio
     (AudioApp_new\<lparr>time := Some (Float64Array [Fin 0]),
        audio_data := Some (Float64Array [Fin 1])\<rparr>)))) = ''Amplitud'' \<and>
   ''Amplitud'' \<noteq> ''Amplitude'' \<and>
   title (ax (fst (plot_audio
     (AudioApp_new\<lparr>time := Some (Float64Array [Fin 0]),
        audio_data := Some (Float64Array [Fin 1])\<rparr>)))) = ''Onda Sonora'' \<and>
   ''Onda Sonora'' \<noteq> ''Sound Wave''"
  by (simp add: plot_audio_def ax_plot_def AudioApp_new_def set_xlabel_def set_ylabel_def
      set_title_def ax_grid_def)

text \<open>
  Claim C7 as amended: for every AudioBuffer (a time axis and samples of equal
  length) \<open>plot_audio\<close> adds one line of amplitude against time, in colour
  \<open>b\<close>, and sets the x label "Tiempo [s]", the y label "Amplitud" and the title
  "Onda Sonora"; \<open>grid()\<close> flips the grid, so on the fresh axes of \<open>__init__\<close>,
  after every successful load, the grid is visible.
\<close>

theorem renderer_labels_and_grid:
  "(time s = Some t \<and> audio_data s = Some d \<and> np_len t = np_len d \<longrightarrow>
      plot_audio s =
        (s\<lparr>ax := \<lparr>lines = lines (ax s) @ [(t, d, ''b'')], xlabel = ''Tiempo [s]'',
                 ylabel = ''Amplitud'', title = ''Onda Sonora'',
                 grid_on = (\<not> grid_on (ax s))\<rparr>\<rparr>, None)) \<and>
   (snd (load_audio_try fs AudioApp_new) = None \<longrightarrow>
      (\<exists>t d. time (fst (load_audio fs AudioApp_new)) = Some t \<and>
             audio_data (fst (load_audio fs AudioApp_new)) = Some d \<and>
             snd (AudioApp_init fs) = None \<and>
             ax (fst (AudioApp_init fs)) =
               \<lparr>lines = [(t, d, ''b'')], xlabel = ''Tiempo [s]'', ylabel = ''Amplitud'',
                title = ''Onda Sonora'', grid_on = True\<rparr>))"
proof (intro conjI impI)
  assume "time s = Some t \<and> audio_data s = Some d \<and> np_len t = np_len d"
  then show "plot_audio s =
        (s\<lparr>ax := \<lparr>lines = lines (ax s) @ [(t, d, ''b'')], xlabel = ''Tiempo [s]'',
                 ylabel = ''Amplitud'', title = ''Onda Sonora'',
                 grid_on = (\<not> grid_on (ax s))\<rparr>\<rparr>, None)"
    by (simp add: plot_audio_def ax_plot_def set_xlabel_def set_ylabel_def
        set_title_def ax_grid_def)
next
  assume ok: "snd (load_audio_try fs AudioApp_new) = None"
  from loaded_lengths [OF ok] obtain d t where
    d: "audio_data (fst (load_audio fs AudioApp_new)) = Some d" and
    t: "time (fst (load_audio fs AudioApp_new)) = Some t" and
    n: "np_len t = np_len d"
    by blast
  have a: "ax (fst (load_audio fs AudioApp_new)) = plt_subplots"
    using ax_load_audio [of fs AudioApp_new] by (simp add: AudioApp_new_def)
  obtain s1 where s1: "load_audio fs AudioApp_new = (s1, None)"
    using load_audio_returns [of fs AudioApp_new]
    by (cases "load_audio fs AudioApp_new") simp
  with d t n a have "snd (AudioApp_init fs) = None \<and>
             ax (fst (AudioApp_init fs)) =
               \<lparr>lines = [(t, d, ''b'')], xlabel = ''Tiempo [s]'', ylabel = ''Amplitud'',
                title = ''Onda Sonora'', grid_on = True\<rparr>"
    by (simp add: AudioApp_init_def plot_audio_def ax_plot_def set_xlabel_def set_ylabel_def
        set_title_def ax_grid_def create_widgets_def plt_subplots_def)
  with d t show "\<exists>t d. time (fst (load_audio fs AudioApp_new)) = Some t \<and>
             audio_data (fst (load_audio fs AudioApp_new)) = Some d \<and>
             snd (AudioApp_init fs) = None \<and>
             ax (fst (AudioApp_init fs)) =
               \<lparr>lines = [(t, d, ''b'')], xlabel = ''Tiempo [s]'', ylabel = ''Amplitud'',
                title = ''Onda Sonora'', grid_on = True\<rparr>"
    by blast
qed

text \<open>
  The theorem on a buffer of one sample, and on the mono file of three samples at 3 Hz.
\<close>

theorem renderer_labels_and_grid_witness:
  "plot_audio
     (AudioApp_new\<lparr>time := Some (Float64Array [Fin 0]),
        audio_data := Some (Float64Array [Fin 1])\<rparr>) =
     (AudioApp_new\<lparr>time := Some (Float64Array [Fin 0]),
        audio_data := Some (Float64Array [Fin 1]),
        ax := \<lparr>lines = [(Float64Array [Fin 0], Float64Array [Fin 1], ''b'')],
               xlabel = ''Tiempo [s]'', ylabel = ''Amplitud'', title = ''Onda Sonora'',
               grid_on = True\<rparr>\<rparr>, None) \<and>
   snd (load_audio_try ((\<lambda>_. NoFile [])(''u.wav'' :=
        PCM \<lparr>nchannels = 1, sampwidth = 2, framerate = 3,
             frames = [1, 0, 2, 0, 3, 0]\<rparr>)) AudioApp_new) = None \<and>
   (\<exists>t d. time (fst (load_audio ((\<lambda>_. NoFile [])(''u.wav'' :=
        PCM \<lparr>nchannels = 1, sampwidth = 2, framerate = 3,
             frames = [1, 0, 2, 0, 3, 0]\<rparr>)) AudioApp_new)) = Some t \<and>
          audio_data (fst (load_audio ((\<lambda>_. NoFile [])(''u.wav'' :=
        PCM \<lparr>nchannels = 1, sampwidth = 2, framerate = 3,
             frames = [1, 0, 2, 0, 3, 0]\<rparr>)) AudioApp_new)) = Some d \<and>
          snd (AudioApp_init ((\<lambda>_. NoFile [])(''u.wav'' :=
        PCM \<lparr>nchannels = 1, sampwidth = 2, framerate = 3,
             frames = [1, 0, 2, 0, 3, 0]\<rparr>))) = None \<and>
          ax (fst (AudioApp_init ((\<lambda>_. NoFile [])(''u.wav'' :=
        PCM \<lparr>nchannels = 1, sampwidth = 2, framerate = 3,
             frames = [1, 0, 2, 0, 3, 0]\<rparr>)))) =
            \<lparr>lines = [(t, d, ''b'')], xlabel = ''Tiempo [s]'', ylabel = ''Amplitud'',
             title = ''Onda Sonora'', grid_on = True\<rparr>)"
proof -
  have h: "snd (load_audio_try ((\<lambda>_. NoFile [])(''u.wav'' :=
        PCM \<lparr>nchannels = 1, sampwidth = 2, framerate = 3,
             frames = [1, 0, 2, 0, 3, 0]\<rparr>)) AudioApp_new) = None"
    by (simp add: load_defs np_defs AudioApp_new_def Let_def)
  have a: "ax AudioApp_new = plt_subplots" by (simp add: AudioApp_new_def)
  show ?thesis
    using h a renderer_labels_and_grid
      [of "AudioApp_new\<lparr>time := Some (Float64Array [Fin 0]),
             audio_data := Some (Float64Array [Fin 1])\<rparr>"
          "Float64Array [Fin 0]" "Float64Array [Fin 1]" "(\<lambda>_. NoFile [])(''u.wav'' :=
        PCM \<lparr>nchannels = 1, sampwidth = 2, framerate = 3,
             frames = [1, 0, 2, 0, 3, 0]\<rparr>)"]
    by (simp add: plt_subplots_def)
qed

section \<open>The commands of the shell\<close>

text \<open>
  Claim C5 says that the export command writes the figure if and only if the save
  dialog returned a path, and that with a path chosen the figure is written and the
  path printed. \<open>savefig\<close> can fail and the method has no \<open>try\<close>: with the
  path \<open>no_such_dir/onda.png\<close> chosen and no such directory, nothing is written,
  nothing is printed, and the \<open>FileNotFoundError\<close> leaves the command.
\<close>

theorem export_with_chosen_path_counterexample:
  "''no_such_dir/onda.png'' \<noteq> [] \<and>
   guardar_imagen_completa
     (\<lambda>p. if p = ''no_such_dir/onda.png''
         then Some (FileNotFoundError
           (''[Errno 2] No such file or directory: '' @ [CHR 0x27] @
            ''no_such_dir/onda.png'' @ [CHR 0x27]))
         else None)
     ''no_such_dir/onda.png'' AudioApp_new =
   (AudioApp_new,
    Some (FileNotFoundError
           (''[Errno 2] No such file or directory: '' @ [CHR 0x27] @
            ''no_such_dir/onda.png'' @ [CHR 0x27])))"
  by (simp add: guardar_imagen_completa_def fig_savefig_def)

text \<open>
  Claim C5 as amended: the export command writes the figure if and only if the save
  dialog returned a path and \<open>savefig\<close> raises nothing. With the dialog cancelled
  (the empty string) the state is unchanged: no file is written and nothing is printed.
  With a path chosen and \<open>savefig\<close> succeeding, the figure is written to that path,
  \<open>Imagen guardada:\<close> and the path are printed, and nothing else changes. When
  \<open>savefig\<close> raises, the state is unchanged and the exception leaves the command.
\<close>

theorem export_writes_iff_path_chosen_and_saved:
  "(archivo_guardado = [] \<longrightarrow>
      guardar_imagen_completa save_error archivo_guardado s = (s, None)) \<and>
   (archivo_guardado \<noteq> [] \<and> save_error archivo_guardado = None \<longrightarrow>
      guardar_imagen_completa save_error archivo_guardado s =
        (s\<lparr>console := console s @ [''Imagen guardada: '' @ archivo_guardado],
           written := written s @ [(archivo_guardado, ax s)]\<rparr>, None)) \<and>
   (archivo_guardado \<noteq> [] \<and> save_error archivo_guardado = Some e \<longrightarrow>
      guardar_imagen_completa save_error archivo_guardado s = (s, Some e)) \<and>
   (written (fst (guardar_imagen_completa save_error archivo_guardado s)) \<noteq> written s
      \<longleftrightarrow> archivo_guardado \<noteq> [] \<and> save_error archivo_guardado = None)"
  by (cases "save_error archivo_guardado")
    (simp_all add: guardar_imagen_completa_def fig_savefig_def py_print_def)

text \<open>
  The theorem with the dialog cancelled, with \<open>onda.png\<close> chosen and written, and
  with \<open>no_such_dir/onda.png\<close> chosen and refused.
\<close>

theorem export_writes_iff_path_chosen_and_saved_witness:
  "guardar_imagen_completa
     (\<lambda>p. if p = ''no_such_dir/onda.png''
         then Some (FileNotFoundError
           (''[Errno 2] No such file or directory: '' @ [CHR 0x27] @
            ''no_such_dir/onda.png'' @ [CHR 0x27]))
         else None)
     [] AudioApp_new = (AudioApp_new, None) \<and>
   guardar_imagen_completa
     (\<lambda>p. if p = ''no_such_dir/onda.png''
         then Some (FileNotFoundError
           (''[Errno 2] No such file or directory: '' @ [CHR 0x27] @
            ''no_such_dir/onda.png'' @ [CHR 0x27]))
         else None)
     ''onda.png'' AudioApp_new =
     (AudioApp_new\<lparr>console := console AudioApp_new @ [''Imagen guardada: '' @ ''onda.png''],
        written := written AudioApp_new @ [(''onda.png'', ax AudioApp_new)]\<rparr>, None) \<and>
   guardar_imagen_completa
     (\<lambda>p. if p = ''no_such_dir/onda.png''
         then Some (FileNotFoundError
           (''[Errno 2] No such file or directory: '' @ [CHR 0x27] @
            ''no_such_dir/onda.png'' @ [CHR 0x27]))
         else None)
     ''no_such_dir/onda.png'' AudioApp_new =
     (AudioApp_new,
      Some (FileNotFoundError
             (''[Errno 2] No such file or directory: '' @ [CHR 0x27] @
              ''no_such_dir/onda.png'' @ [CHR 0x27])))"
  using export_writes_iff_path_chosen_and_saved
      [of "[]" "\<lambda>p. if p = ''no_such_dir/onda.png''
         then Some (FileNotFoundError
           (''[Errno 2] No such file or directory: '' @ [CHR 0x27] @
            ''no_such_dir/onda.png'' @ [CHR 0x27]))
         else None" AudioApp_new]
    export_writes_iff_path_chosen_and_saved
      [of "''onda.png''" "\<lambda>p. if p = ''no_such_dir/onda.png''
         then Some (FileNotFoundError
           (''[Errno 2] No such file or directory: '' @ [CHR 0x27] @
            ''no_such_dir/onda.png'' @ [CHR 0x27]))
         else None" AudioApp_new]
    export_writes_iff_path_chosen_and_saved
      [of "''no_such_dir/onda.png''" "\<lambda>p. if p = ''no_such_dir/onda.png''
         then Some (FileNotFoundError
           (''[Errno 2] No such file or directory: '' @ [CHR 0x27] @
            ''no_such_dir/onda.png'' @ [CHR 0x27]))
         else None" AudioApp_new
          "FileNotFoundError
             (''[Errno 2] No such file or directory: '' @ [CHR 0x27] @
              ''no_such_dir/onda.png'' @ [CHR 0x27])"]
  by simp

text \<open>
  Claim C6: the playback command hands \<open>PlaySound\<close> the path of the original
  file, never the buffer, and no playback failure leaves the command as an exception:
  the missing \<open>winsound\<close> outside Windows (\<open>NameError\<close>) and the
  \<open>RuntimeError\<close> of \<open>PlaySound\<close> are caught and printed. The last conjunct says
  that the loaded data plays no part: the command does the same whatever the sample
  data, the time axis and the sample rate are, and leaves them as they were.
\<close>

theorem playback_by_path_and_never_raises:
  "snd (reproducir_audio windows play_error s) = None \<and>
   (windows \<and> play_error (wav_file_name s) = None \<longrightarrow>
      fst (reproducir_audio windows play_error s) =
        s\<lparr>played := played s @ [wav_file_name s]\<rparr>) \<and>
   (windows \<and> play_error (wav_file_name s) = Some m \<longrightarrow>
      fst (reproducir_audio windows play_error s) =
        s\<lparr>console := console s @ [''Error reproduciendo audio: '' @ m]\<rparr>) \<and>
   (\<not> windows \<longrightarrow>
      fst (reproducir_audio windows play_error s) =
        s\<lparr>console := console s @
          [''Error reproduciendo audio: name 'winsound' is not defined'']\<rparr>) \<and>
   fst (reproducir_audio windows play_error
          (s\<lparr>audio_data := d, time := t, sampling_rate := r\<rparr>)) =
     (fst (reproducir_audio windows play_error s))
       \<lparr>audio_data := d, time := t, sampling_rate := r\<rparr>"
  by (simp add: reproducir_audio_def winsound_PlaySound_def py_print_def
      split: option.splits)

text \<open>
  The theorem three times: on Windows with a file that plays, on Windows with one
  that does not, and outside Windows.
\<close>

theorem playback_by_path_and_never_raises_witness:
  "reproducir_audio True (\<lambda>_. None) AudioApp_new =
     (AudioApp_new\<lparr>played := [''u.wav'']\<rparr>, None) \<and>
   reproducir_audio True (\<lambda>_. Some ''Failed to play sound'') AudioApp_new =
     (AudioApp_new\<lparr>console := [''Error reproduciendo audio: Failed to play sound'']\<rparr>,
      None) \<and>
   reproducir_audio False (\<lambda>_. None) AudioApp_new =
     (AudioApp_new\<lparr>console :=
        [''Error reproduciendo audio: name 'winsound' is not defined'']\<rparr>, None)"
proof -
  have w: "wav_file_name AudioApp_new = ''u.wav''" "console AudioApp_new = []"
    "played AudioApp_new = []"
    by (simp_all add: AudioApp_new_def)
  show ?thesis
    using w
      playback_by_path_and_never_raises [of True "\<lambda>_. None" AudioApp_new]
      playback_by_path_and_never_raises
        [of True "\<lambda>_. Some ''Failed to play sound''" AudioApp_new "''Failed to play sound''"]
      playback_by_path_and_never_raises [of False "\<lambda>_. None" AudioApp_new]
    by (simp add: prod_eq_iff)
qed

section \<open>Reading the frames\<close>

lemma load_audio_try_even:
  assumes "fs (wav_file_name s) = PCM w" and "even (length (frames w))"
  shows "audio_data (fst (load_audio_try fs s)) =
     (case np_max (map np_abs (le_int16s (frames w))) of
        Inl e \<Rightarrow> Some (Int16Array (le_int16s (frames w)))
      | Inr m \<Rightarrow> Some (Float64Array (map (\<lambda>x. np_true_divide x m) (le_int16s (frames w)))))"
  using assms by (simp add: load_defs Let_def split: sum.splits)

lemma audio_data_load_audio:
  "audio_data (fst (load_audio fs s)) = audio_data (fst (load_audio_try fs s))"
proof (cases "snd (load_audio_try fs s)")
  case None
  then show ?thesis by (simp add: load_audio_of_success)
next
  case (Some e)
  then show ?thesis by (simp add: load_audio_of_raise py_print_def)
qed

lemma load_audio_odd:
  assumes "fs (wav_file_name s) = PCM w" and "odd (length (frames w))"
  shows "load_audio fs s =
    (s\<lparr>sampling_rate := Some (framerate w),
       console := console s @
         [''Error loading audio: buffer size must be a multiple of element size'']\<rparr>, None)"
  using assms by (simp add: load_audio_def load_defs Let_def py_print_def)

lemma sint_int16_range: "- 32768 \<le> sint (x :: 16 word) \<and> sint x < 32768"
  using sint_ge [of x] sint_lt [of x] by simp

lemma sint_np_abs:
  "sint (np_abs x) = (if sint x = - 32768 then - 32768 else \<bar>sint x\<bar>)"
proof (cases "sint x < 0")
  case False
  then show ?thesis by (simp add: np_abs_def)
next
  case True
  have neg: "sint (- x) = signed_take_bit 15 (- sint x)"
    by (simp add: sint_word_ariths)
  show ?thesis
  proof (cases "sint x = - 32768")
    case True
    then show ?thesis by (simp add: np_abs_def neg)
  next
    case False
    with sint_int16_range [of x] have "- (2 ^ 15) \<le> - sint x" "- sint x < 2 ^ 15"
      by simp_all
    then have "signed_take_bit 15 (- sint x) = - sint x"
      by (rule signed_take_bit_int_eq_self)
    with True False show ?thesis by (simp add: np_abs_def neg)
  qed
qed

lemma sint_max_int16: "sint (max_int16 a m) = max (sint a) (sint m)"
  by (simp add: max_int16_def max_def)

lemma sint_fold_max_int16: "sint (fold max_int16 xs x) = Max (sint ` set (x # xs))"
proof (induction xs arbitrary: x)
  case Nil
  show ?case by simp
next
  case (Cons y ys)
  have "sint (fold max_int16 (y # ys) x) = Max (sint ` set (max_int16 y x # ys))"
    by (simp add: Cons.IH)
  also have "\<dots> = Max (insert (max (sint y) (sint x)) (sint ` set ys))"
    by (simp add: sint_max_int16)
  also have "\<dots> = Max (sint ` set (x # y # ys))"
    by (cases "ys = []") (simp_all add: max.commute max.left_commute max.assoc)
  finally show ?case .
qed

lemma sint_np_max:
  assumes "np_max xs = Inr m"
  shows "sint m = Max (sint ` set xs)"
proof (cases xs)
  case Nil
  with assms show ?thesis by simp
next
  case (Cons x ys)
  with assms have "m = fold max_int16 ys x" by simp
  then show ?thesis by (simp only: Cons sint_fold_max_int16)
qed

lemma peak_of_samples:
  assumes "np_max (map np_abs raw) = Inr m"
  shows "sint m = Max ((\<lambda>v. if v = - 32768 then - 32768 else \<bar>v\<bar>) ` sint ` set raw)"
proof -
  have "sint ` set (map np_abs raw) =
        (\<lambda>v. if v = - 32768 then - 32768 else \<bar>v\<bar>) ` sint ` set raw"
    by (simp only: set_map image_image sint_np_abs)
  with sint_np_max [OF assms] show ?thesis by (simp only:)
qed

text \<open>
  Claim C8: for every readable PCM file the loader reads every frame and takes the raw
  bytes as signed 16-bit integers before it normalises. \<open>readframes(-1)\<close> returns
  all bytes of the data chunk; when their number is even (as in every 16-bit file)
  \<open>np.frombuffer\<close> makes one sample of each byte pair, low byte first, whose value
  is the pair's two's-complement number, so the samples of a 16-bit file come back
  frame by frame. The normalisation works on these signed values: each sample's signed
  value is divided by the peak, the largest of the absolute signed values (\<open>np.abs\<close>
  leaving -32768 as it is), with NaN and the infinities when the peak is zero; an empty
  array is left as it is, \<open>np.max\<close> refusing it. An odd number of bytes cannot be
  taken as 16-bit samples: \<open>np.frombuffer\<close> raises, and the error is printed.
\<close>

theorem loader_reads_frames_as_int16:
  assumes "fs (wav_file_name s) = PCM w"
  shows "(even (length (frames w)) \<longrightarrow>
      (\<exists>raw. np_frombuffer_int16 (readframes_all w) = Inr raw \<and>
         length raw = length (frames w) div 2 \<and>
         (\<forall>i < length raw.
            sint (raw ! i) = int16_value (frames w ! (2 * i)) (frames w ! (2 * i + 1))) \<and>
         (\<forall>fr. frames w = pcm16_frames fr \<longrightarrow> raw = concat fr) \<and>
         (raw = [] \<longrightarrow> audio_data (fst (load_audio fs s)) = Some (Int16Array [])) \<and>
         (raw \<noteq> [] \<longrightarrow>
            audio_data (fst (load_audio fs s)) =
              Some (Float64Array (map
                (\<lambda>x. if Max ((\<lambda>v. if v = - 32768 then - 32768 else \<bar>v\<bar>) ` sint ` set raw) = 0
                     then (if sint x = 0 then NaN else if 0 < sint x then PosInf else NegInf)
                     else Fin (of_int (sint x) / of_int (Max ((\<lambda>v. if v = - 32768 then - 32768 else \<bar>v\<bar>) ` sint ` set raw))))
                raw))))) \<and>
    (odd (length (frames w)) \<longrightarrow>
      load_audio fs s =
        (s\<lparr>sampling_rate := Some (framerate w),
           console := console s @
             [''Error loading audio: buffer size must be a multiple of element size'']\<rparr>,
         None))"
proof (intro conjI impI)
  assume ev: "even (length (frames w))"
  let ?raw = "le_int16s (frames w)"
  let ?peak = "Max ((\<lambda>v. if v = - 32768 then - 32768 else \<bar>v\<bar>) ` sint ` set ?raw)"
  have a: "audio_data (fst (load_audio fs s)) =
           (case np_max (map np_abs ?raw) of
              Inl e \<Rightarrow> Some (Int16Array ?raw)
            | Inr m \<Rightarrow> Some (Float64Array (map (\<lambda>x. np_true_divide x m) ?raw)))"
    using assms ev by (simp only: audio_data_load_audio load_audio_try_even [of fs s w])
  have "np_frombuffer_int16 (readframes_all w) = Inr ?raw"
    using ev by (simp add: np_frombuffer_int16_def readframes_all_def)
  moreover have "length ?raw = length (frames w) div 2"
    by (rule length_le_int16s)
  moreover have "\<forall>i < length ?raw.
      sint (?raw ! i) = int16_value (frames w ! (2 * i)) (frames w ! (2 * i + 1))"
  proof (intro allI impI)
    fix i
    assume "i < length ?raw"
    then have i: "i < length (frames w) div 2" by (simp only: length_le_int16s)
    show "sint (?raw ! i) = int16_value (frames w ! (2 * i)) (frames w ! (2 * i + 1))"
      by (simp only: le_int16s_nth [OF i] sint_of_byte_pair int16_value_def)
  qed
  moreover have "\<forall>fr. frames w = pcm16_frames fr \<longrightarrow> ?raw = concat fr"
    by (simp add: le_int16s_pcm16_frames)
  moreover have "?raw = [] \<longrightarrow> audio_data (fst (load_audio fs s)) = Some (Int16Array [])"
    by (simp add: a)
  moreover have "?raw \<noteq> [] \<longrightarrow>
            audio_data (fst (load_audio fs s)) =
              Some (Float64Array (map
                (\<lambda>x. if ?peak = 0
                     then (if sint x = 0 then NaN else if 0 < sint x then PosInf else NegInf)
                     else Fin (of_int (sint x) / of_int ?peak))
                ?raw))"
  proof
    assume "?raw \<noteq> []"
    then obtain m where m: "np_max (map np_abs ?raw) = Inr m"
      using np_max_Inr [of "map np_abs ?raw"] by auto
    have "sint m = ?peak" using m by (rule peak_of_samples)
    then have "(\<lambda>x. np_true_divide x m) =
        (\<lambda>x. if ?peak = 0
             then (if sint x = 0 then NaN else if 0 < sint x then PosInf else NegInf)
             else Fin (of_int (sint x) / of_int ?peak))"
      by (simp add: np_true_divide_def fun_eq_iff)
    then show "audio_data (fst (load_audio fs s)) =
              Some (Float64Array (map
                (\<lambda>x. if ?peak = 0
                     then (if sint x = 0 then NaN else if 0 < sint x then PosInf else NegInf)
                     else Fin (of_int (sint x) / of_int ?peak))
                ?raw))"
      by (simp only: a m sum.case)
  qed
  ultimately show "(\<exists>raw. np_frombuffer_int16 (readframes_all w) = Inr raw \<and>
         length raw = length (frames w) div 2 \<and>
         (\<forall>i < length raw.
            sint (raw ! i) = int16_value (frames w ! (2 * i)) (frames w ! (2 * i + 1))) \<and>
         (\<forall>fr. frames w = pcm16_frames fr \<longrightarrow> raw = concat fr) \<and>
         (raw = [] \<longrightarrow> audio_data (fst (load_audio fs s)) = Some (Int16Array [])) \<and>
         (raw \<noteq> [] \<longrightarrow>
            audio_data (fst (load_audio fs s)) =
              Some (Float64Array (map
                (\<lambda>x. if Max ((\<lambda>v. if v = - 32768 then - 32768 else \<bar>v\<bar>) ` sint ` set raw) = 0
                     then (if sint x = 0 then NaN else if 0 < sint x then PosInf else NegInf)
                     else Fin (of_int (sint x) / of_int (Max ((\<lambda>v. if v = - 32768 then - 32768 else \<bar>v\<bar>) ` sint ` set raw))))
                raw))))"
    by blast
next
  assume "odd (length (frames w))"
  with assms show "load_audio fs s =
        (s\<lparr>sampling_rate := Some (framerate w),
           console := console s @
             [''Error loading audio: buffer size must be a multiple of element size'']\<rparr>,
         None)"
    by (rule load_audio_odd)
qed

text \<open>
  The theorem on a mono file of two samples, -1 (bytes FF FF) and 16384 (bytes 00 40):
  the normalised samples are -1/16384 and 1.
\<close>

theorem loader_reads_frames_as_int16_witness:
  "((\<lambda>_. NoFile [])(''u.wav'' :=
      PCM \<lparr>nchannels = 1, sampwidth = 2, framerate = 8000,
           frames = [0xFF, 0xFF, 0x00, 0x40]\<rparr>)) (wav_file_name AudioApp_new) = PCM \<lparr>nchannels = 1, sampwidth = 2, framerate = 8000,
           frames = [0xFF, 0xFF, 0x00, 0x40]\<rparr> \<and>
   even (length (frames \<lparr>nchannels = 1, sampwidth = 2, framerate = 8000,
           frames = [0xFF, 0xFF, 0x00, 0x40]\<rparr>)) \<and>
   np_frombuffer_int16 (readframes_all \<lparr>nchannels = 1, sampwidth = 2, framerate = 8000,
           frames = [0xFF, 0xFF, 0x00, 0x40]\<rparr>) = Inr [- 1, 16384] \<and>
   audio_data (fst (load_audio ((\<lambda>_. NoFile [])(''u.wav'' :=
      PCM \<lparr>nchannels = 1, sampwidth = 2, framerate = 8000,
           frames = [0xFF, 0xFF, 0x00, 0x40]\<rparr>)) AudioApp_new)) =
     Some (Float64Array [Fin (- 1 / 16384), Fin 1]) \<and>
   (\<exists>raw. np_frombuffer_int16 (readframes_all \<lparr>nchannels = 1, sampwidth = 2, framerate = 8000,
           frames = [0xFF, 0xFF, 0x00, 0x40]\<rparr>) = Inr raw \<and>
         length raw = length (frames \<lparr>nchannels = 1, sampwidth = 2, framerate = 8000,
           frames = [0xFF, 0xFF, 0x00, 0x40]\<rparr>) div 2 \<and>
         (\<forall>i < length raw.
            sint (raw ! i) = int16_value (frames \<lparr>nchannels = 1, sampwidth = 2, framerate = 8000,
           frames = [0xFF, 0xFF, 0x00, 0x40]\<rparr> ! (2 * i)) (frames \<lparr>nchannels = 1, sampwidth = 2, framerate = 8000,
           frames = [0xFF, 0xFF, 0x00, 0x40]\<rparr> ! (2 * i + 1))) \<and>
         (\<forall>fr. frames \<lparr>nchannels = 1, sampwidth = 2, framerate = 8000,
           frames = [0xFF, 0xFF, 0x00, 0x40]\<rparr> = pcm16_frames fr \<longrightarrow> raw = concat fr) \<and>
         (raw = [] \<longrightarrow> audio_data (fst (load_audio ((\<lambda>_. NoFile [])(''u.wav'' :=
      PCM \<lparr>nchannels = 1, sampwidth = 2, framerate = 8000,
           frames = [0xFF, 0xFF, 0x00, 0x40]\<rparr>)) AudioApp_new)) = Some (Int16Array [])) \<and>
         (raw \<noteq> [] \<longrightarrow>
            audio_data (fst (load_audio ((\<lambda>_. NoFile [])(''u.wav'' :=
      PCM \<lparr>nchannels = 1, sampwidth = 2, framerate = 8000,
           frames = [0xFF, 0xFF, 0x00, 0x40]\<rparr>)) AudioApp_new)) =
              Some (Float64Array (map
                (\<lambda>x. if Max ((\<lambda>v. if v = - 32768 then - 32768 else \<bar>v\<bar>) ` sint ` set raw) = 0
                     then (if sint x = 0 then NaN else if 0 < sint x then PosInf else NegInf)
                     else Fin (of_int (sint x) / of_int (Max ((\<lambda>v. if v = - 32768 then - 32768 else \<bar>v\<bar>) ` sint ` set raw))))
                raw))))"
  (is "?H1 \<and> ?H2 \<and> ?R \<and> ?A \<and> ?C")
proof -
  have h1: ?H1 by (simp add: AudioApp_new_def)
  have h2: ?H2 by simp
  have r: ?R by (simp add: np_frombuffer_int16_def readframes_all_def)
  have a: ?A by (simp add: load_audio_def load_defs np_defs AudioApp_new_def Let_def)
  have "?H2 \<longrightarrow> ?C"
    by (rule conjunct1 [OF loader_reads_frames_as_int16
      [of "(\<lambda>_. NoFile [])(''u.wav'' :=
      PCM \<lparr>nchannels = 1, sampwidth = 2, framerate = 8000,
           frames = [0xFF, 0xFF, 0x00, 0x40]\<rparr>)" AudioApp_new
          "\<lparr>nchannels = 1, sampwidth = 2, framerate = 8000,
           frames = [0xFF, 0xFF, 0x00, 0x40]\<rparr>", OF h1]])
  with h1 h2 r a show ?thesis by blast
qed

section \<open>Several channels\<close>

text \<open>
  Claim C10: for a 16-bit file of \<open>f\<close> frames and \<open>c\<close> channels (more than one)
  the loaded sequence is the flat interleaving of all channels, sample \<open>k\<close> of frame
  \<open>j\<close> at index \<open>j * c + k\<close>, of length \<open>f * c\<close>; the time axis has as many
  points and runs from 0 to \<open>(f * c) / sr\<close>, which is \<open>c\<close> times the duration
  \<open>f / sr\<close> of the file.
\<close>

theorem multichannel_samples_are_flattened:
  assumes "fs (wav_file_name s) = PCM w"
    and "frames w = pcm16_frames fr"
    and "\<forall>f \<in> set fr. length f = nchannels w"
    and "fr \<noteq> []" and "1 < nchannels w" and "0 < framerate w"
  shows "\<exists>m t. audio_data (fst (load_audio fs s)) =
             Some (Float64Array (map (\<lambda>x. np_true_divide x m) (concat fr))) \<and>
           length (concat fr) = length fr * nchannels w \<and>
           (\<forall>j < length fr. \<forall>k < nchannels w.
              concat fr ! (j * nchannels w + k) = fr ! j ! k) \<and>
           time (fst (load_audio fs s)) = Some (Float64Array (map Fin t)) \<and>
           length t = length fr * nchannels w \<and>
           t ! 0 = 0 \<and>
           last t = of_nat (length fr * nchannels w) / of_nat (framerate w) \<and>
           last t = of_nat (nchannels w) * (of_nat (length fr) / of_nat (framerate w))"
proof -
  let ?n = "length fr * nchannels w"
  let ?stop = "of_nat ?n / of_nat (framerate w) :: rat"
  have raw: "le_int16s (frames w) = concat fr"
    by (simp add: assms(2) le_int16s_pcm16_frames)
  have len: "length (concat fr) = ?n"
    using assms(3) by (rule length_concat_uniform)
  have bytes: "length (frames w) = 2 * ?n"
    by (simp add: assms(2) length_pcm16_frames len)
  have "0 < length fr" using assms(4) by simp
  with assms(5) have big: "1 < ?n"
    by (metis less_1_mult Suc_lessI One_nat_def mult.commute nat_mult_less_cancel_disj
        mult.right_neutral mult_less_cancel1 less_trans)
  have "0 < length (concat fr)" using len assms(4,5) by simp
  then have "concat fr \<noteq> []" by (rule length_greater_0_conv [THEN iffD1])
  then obtain m where m: "np_max (map np_abs (le_int16s (frames w))) = Inr m"
    using np_max_Inr [of "map np_abs (concat fr)"] raw by auto
  have ev: "even (length (frames w))" by (simp add: bytes)
  have sr: "framerate w \<noteq> 0" using assms(6) by simp
  have t: "load_audio_try fs s =
           (s\<lparr>sampling_rate := Some (framerate w),
               audio_data := Some (Float64Array
                 (map (\<lambda>x. np_true_divide x m) (le_int16s (frames w)))),
               time := Some (Float64Array (map Fin
                 (np_linspace 0
                    (of_nat (length (frames w) div 2) / of_nat (framerate w))
                    (length (frames w) div 2))))\<rparr>, None)"
    using assms(1) ev m sr by (rule load_audio_try_PCM)
  then have l: "load_audio fs s = load_audio_try fs s"
    by (simp add: load_audio_of_success)
  have "audio_data (fst (load_audio fs s)) =
             Some (Float64Array (map (\<lambda>x. np_true_divide x m) (concat fr)))"
    by (simp add: l t raw)
  moreover have "time (fst (load_audio fs s)) =
      Some (Float64Array (map Fin (np_linspace 0 ?stop ?n)))"
    by (simp add: l t bytes)
  moreover have "\<forall>j < length fr. \<forall>k < nchannels w.
              concat fr ! (j * nchannels w + k) = fr ! j ! k"
    using assms(3) by (simp add: concat_nth_uniform)
  moreover have "length (np_linspace 0 ?stop ?n) = ?n"
    by (rule length_np_linspace)
  moreover have "np_linspace 0 ?stop ?n ! 0 = 0"
  proof -
    have "0 < ?n" using assms(4,5) by simp
    then show ?thesis by (rule np_linspace_first)
  qed
  moreover have "last (np_linspace 0 ?stop ?n) = ?stop"
    using big by (rule np_linspace_last)
  moreover have "?stop = of_nat (nchannels w) * (of_nat (length fr) / of_nat (framerate w))"
    by simp
  ultimately show ?thesis using len
    by (intro exI [of _ m] exI [of _ "np_linspace 0 ?stop ?n"]) (simp only: simp_thms)
qed

text \<open>
  The theorem on a stereo file of two frames, (1, 2) and (3, 4), at 4 Hz.
\<close>

theorem multichannel_samples_are_flattened_witness:
  "((\<lambda>_. NoFile [])(''u.wav'' :=
      PCM \<lparr>nchannels = 2, sampwidth = 2, framerate = 4,
           frames = [1, 0, 2, 0, 3, 0, 4, 0]\<rparr>)) (wav_file_name AudioApp_new) = PCM \<lparr>nchannels = 2, sampwidth = 2, framerate = 4,
           frames = [1, 0, 2, 0, 3, 0, 4, 0]\<rparr> \<and>
   frames \<lparr>nchannels = 2, sampwidth = 2, framerate = 4,
           frames = [1, 0, 2, 0, 3, 0, 4, 0]\<rparr> = pcm16_frames ([[1, 2], [3, 4]] :: 16 word list list) \<and>
   (\<exists>m t. audio_data (fst (load_audio ((\<lambda>_. NoFile [])(''u.wav'' :=
      PCM \<lparr>nchannels = 2, sampwidth = 2, framerate = 4,
           frames = [1, 0, 2, 0, 3, 0, 4, 0]\<rparr>)) AudioApp_new)) =
             Some (Float64Array (map (\<lambda>x. np_true_divide x m) (concat ([[1, 2], [3, 4]] :: 16 word list list)))) \<and>
           length (concat ([[1, 2], [3, 4]] :: 16 word list list)) = length ([[1, 2], [3, 4]] :: 16 word list list) * nchannels \<lparr>nchannels = 2, sampwidth = 2, framerate = 4,
           frames = [1, 0, 2, 0, 3, 0, 4, 0]\<rparr> \<and>
           (\<forall>j < length ([[1, 2], [3, 4]] :: 16 word list list). \<forall>k < nchannels \<lparr>nchannels = 2, sampwidth = 2, framerate = 4,
           frames = [1, 0, 2, 0, 3, 0, 4, 0]\<rparr>.
              concat ([[1, 2], [3, 4]] :: 16 word list list) ! (j * nchannels \<lparr>nchannels = 2, sampwidth = 2, framerate = 4,
           frames = [1, 0, 2, 0, 3, 0, 4, 0]\<rparr> + k) = ([[1, 2], [3, 4]] :: 16 word list list) ! j ! k) \<and>
           time (fst (load_audio ((\<lambda>_. NoFile [])(''u.wav'' :=
      PCM \<lparr>nchannels = 2, sampwidth = 2, framerate = 4,
           frames = [1, 0, 2, 0, 3, 0, 4, 0]\<rparr>)) AudioApp_new)) = Some (Float64Array (map Fin t)) \<and>
           length t = length ([[1, 2], [3, 4]] :: 16 word list list) * nchannels \<lparr>nchannels = 2, sampwidth = 2, framerate = 4,
           frames = [1, 0, 2, 0, 3, 0, 4, 0]\<rparr> \<and>
           t ! 0 = 0 \<and>
           last t = of_nat (length ([[1, 2], [3, 4]] :: 16 word list list) * nchannels \<lparr>nchannels = 2, sampwidth = 2, framerate = 4,
           frames = [1, 0, 2, 0, 3, 0, 4, 0]\<rparr>) / of_nat (framerate \<lparr>nchannels = 2, sampwidth = 2, framerate = 4,
           frames = [1, 0, 2, 0, 3, 0, 4, 0]\<rparr>) \<and>
           last t = of_nat (nchannels \<lparr>nchannels = 2, sampwidth = 2, framerate = 4,
           frames = [1, 0, 2, 0, 3, 0, 4, 0]\<rparr>) * (of_nat (length ([[1, 2], [3, 4]] :: 16 word list list)) / of_nat (framerate \<lparr>nchannels = 2, sampwidth = 2, framerate = 4,
           frames = [1, 0, 2, 0, 3, 0, 4, 0]\<rparr>)))"
  (is "?H1 \<and> ?H2 \<and> ?C")
proof -
  have h1: ?H1 by (simp add: AudioApp_new_def)
  have h2: ?H2 by (simp add: pcm16_frames_def int16_bytes_def)
  have h3: "\<forall>f \<in> set ([[1, 2], [3, 4]] :: 16 word list list). length f = nchannels \<lparr>nchannels = 2, sampwidth = 2, framerate = 4,
           frames = [1, 0, 2, 0, 3, 0, 4, 0]\<rparr>"
    by simp
  have h4: "([[1, 2], [3, 4]] :: 16 word list list) \<noteq> []" "1 < nchannels \<lparr>nchannels = 2, sampwidth = 2, framerate = 4,
           frames = [1, 0, 2, 0, 3, 0, 4, 0]\<rparr>"
    "0 < framerate \<lparr>nchannels = 2, sampwidth = 2, framerate = 4,
           frames = [1, 0, 2, 0, 3, 0, 4, 0]\<rparr>"
    by simp_all
  have ?C
    by (rule multichannel_samples_are_flattened
      [of "(\<lambda>_. NoFile [])(''u.wav'' :=
      PCM \<lparr>nchannels = 2, sampwidth = 2, framerate = 4,
           frames = [1, 0, 2, 0, 3, 0, 4, 0]\<rparr>)" AudioApp_new
          "\<lparr>nchannels = 2, sampwidth = 2, framerate = 4,
           frames = [1, 0, 2, 0, 3, 0, 4, 0]\<rparr>" "([[1, 2], [3, 4]] :: 16 word list list)", OF h1 h2 h3 h4])
  with h1 h2 show ?thesis by blast
qed

end
